theory Spec2Isabelle
  imports Complex_Main
begin

section \<open>Values and exceptions of the interpreter\<close>

text \<open>
  Exceptions are values that carry their class and their message, and each built-in
  operation returns either an exception (\<open>Inl\<close>) or a value (\<open>Inr\<close>).

  The module \<^verbatim>\<open>wootMath/vector.py\<close> tells the failures of tuple unpacking apart by the
  text of the interpreter's message. That text is \<^verbatim>\<open>'need more than 2 values to unpack'\<close>
  and \<^verbatim>\<open>'too many values to unpack'\<close> on CPython 2.7, and
  \<^verbatim>\<open>'not enough values to unpack (expected 3, got 2)'\<close> and
  \<^verbatim>\<open>'too many values to unpack (expected 3)'\<close> on CPython 3.5 and later, so unpacking takes
  the interpreter as a parameter. The messages of the other built-in errors are never
  compared by the module; they are given in the wording of CPython 2.7.

  A coordinate is an \<^verbatim>\<open>int\<close>, a \<^verbatim>\<open>float\<close> or a \<^verbatim>\<open>str\<close> (the last because \<^verbatim>\<open>cross\<close>
  appends the string \<^verbatim>\<open>'0'\<close>). Integers are unbounded (\<^verbatim>\<open>int\<close> and \<^verbatim>\<open>long\<close> are one type
  here). A \<^verbatim>\<open>float\<close> carries a real number: an \<^verbatim>\<open>int\<close> too large for a double raises
  \<^verbatim>\<open>OverflowError\<close> when it meets a \<^verbatim>\<open>float\<close>, but the rounding, infinities and NaN of IEEE
  doubles are not represented, and neither is the exhaustion of memory by a long string.
\<close>

datatype interpreter = CPython2 | CPython3

datatype pyval = PInt int | PFloat real | PStr string

datatype exn =
    ValueError string
  | TypeError string
  | ZeroDivisionError string
  | OverflowError string
  | Exception string

text \<open>\<^verbatim>\<open>str(e)\<close>\<close>

fun str :: "exn \<Rightarrow> string" where
  "str (ValueError m) = m"
| "str (TypeError m) = m"
| "str (ZeroDivisionError m) = m"
| "str (OverflowError m) = m"
| "str (Exception m) = m"

fun type_name :: "pyval \<Rightarrow> string" where
  "type_name (PInt _) = ''int''"
| "type_name (PFloat _) = ''float''"
| "type_name (PStr _) = ''str''"

definition quoted :: "string \<Rightarrow> string" where
  "quoted s = CHR 0x27 # s @ [CHR 0x27]"

definition unsupported :: "string \<Rightarrow> pyval \<Rightarrow> pyval \<Rightarrow> exn" where
  "unsupported opr x y =
     TypeError (''unsupported operand type(s) for '' @ opr @ '': ''
                @ quoted (type_name x) @ '' and '' @ quoted (type_name y))"

text \<open>Sequencing of two computations that may raise: the first exception wins.\<close>

fun exn_bind :: "exn + 'a \<Rightarrow> ('a \<Rightarrow> exn + 'b) \<Rightarrow> exn + 'b" where
  "exn_bind (Inl e) f = Inl e"
| "exn_bind (Inr x) f = f x"

text \<open>A binary operator applied to two operand expressions, the left one evaluated first.\<close>

definition binop ::
  "(pyval \<Rightarrow> pyval \<Rightarrow> exn + pyval) \<Rightarrow> exn + pyval \<Rightarrow> exn + pyval \<Rightarrow> exn + pyval" where
  "binop f a b = exn_bind a (\<lambda>x. exn_bind b (\<lambda>y. f x y))"

text \<open>\<^verbatim>\<open>for ... in ...\<close> over a list, collecting the results up to the first exception.\<close>

fun map_exn :: "('a \<Rightarrow> exn + 'b) \<Rightarrow> 'a list \<Rightarrow> exn + 'b list" where
  "map_exn f [] = Inr []"
| "map_exn f (x # xs) =
     exn_bind (f x) (\<lambda>y. exn_bind (map_exn f xs) (\<lambda>ys. Inr (y # ys)))"

subsection \<open>Arithmetic\<close>

text \<open>
  The conversion of an \<^verbatim>\<open>int\<close> to a \<^verbatim>\<open>float\<close>, made when an operator or \<^verbatim>\<open>math.sqrt\<close> gets
  an \<^verbatim>\<open>int\<close> where it works on doubles. The interpreter rounds to the nearest double and
  raises when that is beyond the largest one: from \<open>2 ^ 1024 - 2 ^ 970\<close> on, in absolute
  value. Below that bound the value is kept exact here.
\<close>

definition DBL_OVERFLOW :: int where
  "DBL_OVERFLOW = 2 ^ 1024 - 2 ^ 970"

definition to_float :: "int \<Rightarrow> exn + real" where
  "to_float a =
     (if DBL_OVERFLOW \<le> \<bar>a\<bar> then Inl (OverflowError ''long int too large to convert to float'')
      else Inr (of_int a))"

text \<open>\<^verbatim>\<open>x + y\<close>\<close>

fun py_add :: "pyval \<Rightarrow> pyval \<Rightarrow> exn + pyval" where
  "py_add (PInt a) (PInt b) = Inr (PInt (a + b))"
| "py_add (PInt a) (PFloat b) = exn_bind (to_float a) (\<lambda>r. Inr (PFloat (r + b)))"
| "py_add (PFloat a) (PInt b) = exn_bind (to_float b) (\<lambda>r. Inr (PFloat (a + r)))"
| "py_add (PFloat a) (PFloat b) = Inr (PFloat (a + b))"
| "py_add (PStr s) (PStr t) = Inr (PStr (s @ t))"
| "py_add (PStr s) y =
     Inl (TypeError (''cannot concatenate '' @ quoted ''str'' @ '' and ''
                     @ quoted (type_name y) @ '' objects''))"
| "py_add x y = Inl (unsupported ''+'' x y)"

text \<open>\<^verbatim>\<open>x - y\<close>\<close>

fun py_sub :: "pyval \<Rightarrow> pyval \<Rightarrow> exn + pyval" where
  "py_sub (PInt a) (PInt b) = Inr (PInt (a - b))"
| "py_sub (PInt a) (PFloat b) = exn_bind (to_float a) (\<lambda>r. Inr (PFloat (r - b)))"
| "py_sub (PFloat a) (PInt b) = exn_bind (to_float b) (\<lambda>r. Inr (PFloat (a - r)))"
| "py_sub (PFloat a) (PFloat b) = Inr (PFloat (a - b))"
| "py_sub x y = Inl (unsupported ''-'' x y)"

text \<open>\<^verbatim>\<open>x * y\<close>; an \<^verbatim>\<open>int\<close> times a \<^verbatim>\<open>str\<close> repeats the string.\<close>

fun py_mul :: "pyval \<Rightarrow> pyval \<Rightarrow> exn + pyval" where
  "py_mul (PInt a) (PInt b) = Inr (PInt (a * b))"
| "py_mul (PInt a) (PFloat b) = exn_bind (to_float a) (\<lambda>r. Inr (PFloat (r * b)))"
| "py_mul (PFloat a) (PInt b) = exn_bind (to_float b) (\<lambda>r. Inr (PFloat (a * r)))"
| "py_mul (PFloat a) (PFloat b) = Inr (PFloat (a * b))"
| "py_mul (PInt n) (PStr s) = Inr (PStr (concat (replicate (nat n) s)))"
| "py_mul (PStr s) (PInt n) = Inr (PStr (concat (replicate (nat n) s)))"
| "py_mul (PStr s) y =
     Inl (TypeError (''can't multiply sequence by non-int of type '' @ quoted (type_name y)))"
| "py_mul x (PStr s) =
     Inl (TypeError (''can't multiply sequence by non-int of type '' @ quoted (type_name x)))"

text \<open>\<^verbatim>\<open>-x\<close>\<close>

fun py_neg :: "pyval \<Rightarrow> exn + pyval" where
  "py_neg (PInt a) = Inr (PInt (- a))"
| "py_neg (PFloat a) = Inr (PFloat (- a))"
| "py_neg (PStr s) = Inl (TypeError (''bad operand type for unary -: '' @ quoted ''str''))"

text \<open>\<^verbatim>\<open>x ** 2\<close>\<close>

fun py_square :: "pyval \<Rightarrow> exn + pyval" where
  "py_square (PInt a) = Inr (PInt (a ^ 2))"
| "py_square (PFloat a) = Inr (PFloat (a ^ 2))"
| "py_square (PStr s) = Inl (unsupported ''** or pow()'' (PStr s) (PInt 2))"

text \<open>
  \<^verbatim>\<open>x / y\<close>: true division as soon as a \<^verbatim>\<open>float\<close> takes part, which is the only use the
  module makes of it (\<^verbatim>\<open>1. / magnitude\<close>); on two \<^verbatim>\<open>int\<close>s, the floor division of CPython 2.7.
\<close>

fun py_div :: "pyval \<Rightarrow> pyval \<Rightarrow> exn + pyval" where
  "py_div (PInt a) (PInt b) =
     (if b = 0 then Inl (ZeroDivisionError ''integer division or modulo by zero'')
      else Inr (PInt (a div b)))"
| "py_div (PInt a) (PFloat b) =
     exn_bind (to_float a)
       (\<lambda>r. if b = 0 then Inl (ZeroDivisionError ''float division by zero'')
            else Inr (PFloat (r / b)))"
| "py_div (PFloat a) (PInt b) =
     exn_bind (to_float b)
       (\<lambda>r. if r = 0 then Inl (ZeroDivisionError ''float division by zero'')
            else Inr (PFloat (a / r)))"
| "py_div (PFloat a) (PFloat b) =
     (if b = 0 then Inl (ZeroDivisionError ''float division by zero'')
      else Inr (PFloat (a / b)))"
| "py_div x y = Inl (unsupported ''/'' x y)"

text \<open>\<^verbatim>\<open>sum(xs)\<close>: addition from the left, starting at the \<^verbatim>\<open>int\<close> 0.\<close>

fun sum_from :: "pyval \<Rightarrow> pyval list \<Rightarrow> exn + pyval" where
  "sum_from acc [] = Inr acc"
| "sum_from acc (x # xs) = exn_bind (py_add acc x) (\<lambda>acc'. sum_from acc' xs)"

definition py_sum :: "pyval list \<Rightarrow> exn + pyval" where
  "py_sum xs = sum_from (PInt 0) xs"

text \<open>\<^verbatim>\<open>math.sqrt(x)\<close>: the argument is converted to a \<^verbatim>\<open>float\<close>; the result is a \<^verbatim>\<open>float\<close>.\<close>

fun math_sqrt :: "pyval \<Rightarrow> exn + pyval" where
  "math_sqrt (PInt a) =
     exn_bind (to_float a)
       (\<lambda>r. if r < 0 then Inl (ValueError ''math domain error'') else Inr (PFloat (sqrt r)))"
| "math_sqrt (PFloat a) =
     (if a < 0 then Inl (ValueError ''math domain error'') else Inr (PFloat (sqrt a)))"
| "math_sqrt (PStr s) = Inl (TypeError ''a float is required'')"

text \<open>
  Destructuring a tuple into three names, \<^verbatim>\<open>x, y, z = t\<close>, with the message of the
  interpreter when the length is not three.
\<close>

fun unpack3 :: "interpreter \<Rightarrow> pyval list \<Rightarrow> exn + (pyval \<times> pyval \<times> pyval)" where
  "unpack3 i [x, y, z] = Inr (x, y, z)"
| "unpack3 CPython2 [] = Inl (ValueError ''need more than 0 values to unpack'')"
| "unpack3 CPython2 [x] = Inl (ValueError ''need more than 1 value to unpack'')"
| "unpack3 CPython2 [x, y] = Inl (ValueError ''need more than 2 values to unpack'')"
| "unpack3 CPython2 (x # y # z # w # ws) = Inl (ValueError ''too many values to unpack'')"
| "unpack3 CPython3 [] = Inl (ValueError ''not enough values to unpack (expected 3, got 0)'')"
| "unpack3 CPython3 [x] = Inl (ValueError ''not enough values to unpack (expected 3, got 1)'')"
| "unpack3 CPython3 [x, y] =
     Inl (ValueError ''not enough values to unpack (expected 3, got 2)'')"
| "unpack3 CPython3 (x # y # z # w # ws) =
     Inl (ValueError ''too many values to unpack (expected 3)'')"

section \<open>The class \<^verbatim>\<open>Vector\<close>\<close>

record Vector =
  coordinates :: "pyval list"
  dimension :: nat

definition CANNOT_NORMALIZE_ZERO_VECTOR_MSG :: string where
  "CANNOT_NORMALIZE_ZERO_VECTOR_MSG = ''Cannot normalize the zero vector''"

definition NO_UNIQUE_PARALLEL_COMPONENT_MSG :: string where
  "NO_UNIQUE_PARALLEL_COMPONENT_MSG = ''No unique parallel component''"

definition NO_UNIQUE_ORTHOGONAL_COMPONENT_MSG :: string where
  "NO_UNIQUE_ORTHOGONAL_COMPONENT_MSG = ''No unique orthogonal component''"

definition ONLY_DEFINED_IN_TWO_THREE_DIMS_MSG :: string where
  "ONLY_DEFINED_IN_TWO_THREE_DIMS_MSG = ''Only two or three dimensional vectors can be processed''"

subsection \<open>Construction\<close>

text \<open>
  The argument of the constructor is any object. The objects represented are tuples and
  lists (sequences), iterators such as generators, and the non-iterable \<^verbatim>\<open>int\<close>, \<^verbatim>\<open>float\<close>,
  \<^verbatim>\<open>bool\<close> and \<^verbatim>\<open>None\<close>.
\<close>

datatype pyobj =
    OTuple "pyval list"
  | OList "pyval list"
  | OIter "pyval list"
  | OInt int
  | OFloat real
  | OBool bool
  | ONone

text \<open>Truth value of an object, as \<^verbatim>\<open>not coordinates\<close> tests it. An iterator is always true.\<close>

fun truthy :: "pyobj \<Rightarrow> bool" where
  "truthy (OTuple xs) = (xs \<noteq> [])"
| "truthy (OList xs) = (xs \<noteq> [])"
| "truthy (OIter xs) = True"
| "truthy (OInt i) = (i \<noteq> 0)"
| "truthy (OFloat r) = (r \<noteq> 0)"
| "truthy (OBool b) = b"
| "truthy ONone = False"

fun obj_type_name :: "pyobj \<Rightarrow> string" where
  "obj_type_name (OTuple _) = ''tuple''"
| "obj_type_name (OList _) = ''list''"
| "obj_type_name (OIter _) = ''generator''"
| "obj_type_name (OInt _) = ''int''"
| "obj_type_name (OFloat _) = ''float''"
| "obj_type_name (OBool _) = ''bool''"
| "obj_type_name ONone = ''NoneType''"

text \<open>\<^verbatim>\<open>tuple(coordinates)\<close>\<close>

fun py_tuple :: "pyobj \<Rightarrow> exn + pyval list" where
  "py_tuple (OTuple xs) = Inr xs"
| "py_tuple (OList xs) = Inr xs"
| "py_tuple (OIter xs) = Inr xs"
| "py_tuple x = Inl (TypeError (quoted (obj_type_name x) @ '' object is not iterable''))"

text \<open>
  \<^verbatim>\<open>Vector.__init__\<close>: the body of the \<^verbatim>\<open>try\<close>, then the two handlers, which replace any
  \<^verbatim>\<open>ValueError\<close> and any \<^verbatim>\<open>TypeError\<close> raised in the body.
\<close>

definition init_body :: "pyobj \<Rightarrow> exn + Vector" where
  "init_body c =
     (if \<not> truthy c then Inl (ValueError [])
      else exn_bind (py_tuple c)
             (\<lambda>t. Inr \<lparr>coordinates = t, dimension = length t\<rparr>))"

definition Vector_init :: "pyobj \<Rightarrow> exn + Vector" where
  "Vector_init c =
     (case init_body c of
        Inl (ValueError m) \<Rightarrow> Inl (ValueError ''The coordinates must be nonempty'')
      | Inl (TypeError m) \<Rightarrow> Inl (TypeError ''The coordinates must be iterable'')
      | r \<Rightarrow> r)"

subsection \<open>Arithmetic operators\<close>

text \<open>
  \<^verbatim>\<open>__add__\<close>, \<^verbatim>\<open>__sub__\<close> and \<^verbatim>\<open>__mul__\<close> build the tuple of results first (\<^verbatim>\<open>zip\<close> stops at
  the shorter operand) and pass it to the constructor.
\<close>

definition Vector_add :: "Vector \<Rightarrow> Vector \<Rightarrow> exn + Vector" where
  "Vector_add self v =
     exn_bind (map_exn (\<lambda>(x, y). py_add x y) (zip (coordinates self) (coordinates v)))
       (\<lambda>t. Vector_init (OTuple t))"

definition Vector_sub :: "Vector \<Rightarrow> Vector \<Rightarrow> exn + Vector" where
  "Vector_sub self v =
     exn_bind (map_exn (\<lambda>(x, y). py_sub x y) (zip (coordinates self) (coordinates v)))
       (\<lambda>t. Vector_init (OTuple t))"

definition Vector_mul :: "Vector \<Rightarrow> pyval \<Rightarrow> exn + Vector" where
  "Vector_mul self times' =
     exn_bind (map_exn (\<lambda>coordinate. py_mul coordinate times') (coordinates self))
       (\<lambda>t. Vector_init (OTuple t))"

subsection \<open>Magnitude, normalization, dot product\<close>

definition magnitude :: "Vector \<Rightarrow> exn + pyval" where
  "magnitude self =
     exn_bind (map_exn py_square (coordinates self))
       (\<lambda>squares. exn_bind (py_sum squares) math_sqrt)"

text \<open>
  \<^verbatim>\<open>normalized\<close>: the body of the \<^verbatim>\<open>try\<close>, and the handler that replaces a
  \<^verbatim>\<open>ZeroDivisionError\<close> raised anywhere in the body.
\<close>

definition normalized_body :: "Vector \<Rightarrow> exn + Vector" where
  "normalized_body self =
     exn_bind (magnitude self)
       (\<lambda>magnitude. exn_bind (py_div (PFloat 1) magnitude) (\<lambda>times'. Vector_mul self times'))"

definition normalized :: "Vector \<Rightarrow> exn + Vector" where
  "normalized self =
     (case normalized_body self of
        Inl (ZeroDivisionError m) \<Rightarrow> Inl (Exception ''Cannot normalize the zero vector'')
      | r \<Rightarrow> r)"

definition dot :: "Vector \<Rightarrow> Vector \<Rightarrow> exn + pyval" where
  "dot self v =
     exn_bind (map_exn (\<lambda>(x, y). py_mul x y) (zip (coordinates self) (coordinates v))) py_sum"

subsection \<open>Projection\<close>

text \<open>
  Both methods catch every exception of their body and replace it when its message is
  the expected one; any other exception is raised again as it is.
\<close>

definition parallel_body :: "Vector \<Rightarrow> Vector \<Rightarrow> exn + Vector" where
  "parallel_body self basis =
     exn_bind (normalized basis)
       (\<lambda>u. exn_bind (dot self u) (\<lambda>weight. Vector_mul u weight))"

definition component_parallel_to :: "Vector \<Rightarrow> Vector \<Rightarrow> exn + Vector" where
  "component_parallel_to self basis =
     (case parallel_body self basis of
        Inl e \<Rightarrow>
          (if str e = CANNOT_NORMALIZE_ZERO_VECTOR_MSG
           then Inl (Exception NO_UNIQUE_PARALLEL_COMPONENT_MSG)
           else Inl e)
      | Inr r \<Rightarrow> Inr r)"

definition orthogonal_body :: "Vector \<Rightarrow> Vector \<Rightarrow> exn + Vector" where
  "orthogonal_body self basis =
     exn_bind (component_parallel_to self basis) (\<lambda>projection. Vector_sub self projection)"

definition component_orthogonal_to :: "Vector \<Rightarrow> Vector \<Rightarrow> exn + Vector" where
  "component_orthogonal_to self basis =
     (case orthogonal_body self basis of
        Inl e \<Rightarrow>
          (if str e = NO_UNIQUE_PARALLEL_COMPONENT_MSG
           then Inl (Exception NO_UNIQUE_ORTHOGONAL_COMPONENT_MSG)
           else Inl e)
      | Inr r \<Rightarrow> Inr r)"

subsection \<open>Cross product\<close>

text \<open>
  The body of the \<^verbatim>\<open>try\<close> in \<^verbatim>\<open>cross\<close>: both tuples are unpacked into three names, then
  the three coordinates are computed in order and passed to the constructor as a list.
\<close>

definition cross_body :: "interpreter \<Rightarrow> Vector \<Rightarrow> Vector \<Rightarrow> exn + Vector" where
  "cross_body i self v =
     exn_bind (unpack3 i (coordinates self)) (\<lambda>(x_1, y_1, z_1).
     exn_bind (unpack3 i (coordinates v)) (\<lambda>(x_2, y_2, z_2).
     exn_bind (binop py_sub (py_mul y_1 z_2) (py_mul y_2 z_1)) (\<lambda>c1.
     exn_bind (exn_bind (binop py_sub (py_mul x_1 z_2) (py_mul x_2 z_1)) py_neg) (\<lambda>c2.
     exn_bind (binop py_sub (py_mul x_1 y_2) (py_mul x_2 y_1)) (\<lambda>c3.
     Vector_init (OList [c1, c2, c3]))))))"

text \<open>
  The handler of \<^verbatim>\<open>cross\<close> catches \<^verbatim>\<open>ValueError\<close> only and compares its message with three
  fixed strings. On the first it appends the string \<^verbatim>\<open>'0'\<close> to both operands and calls
  \<^verbatim>\<open>cross\<close> again.
\<close>

function cross :: "interpreter \<Rightarrow> Vector \<Rightarrow> Vector \<Rightarrow> exn + Vector" where
  "cross i self v =
     (case cross_body i self v of
        Inl (ValueError msg) \<Rightarrow>
          (if msg = ''need more than 2 values to unpack'' then
             (case Vector_init (OTuple (coordinates self @ [PStr ''0''])) of
                Inl e \<Rightarrow> Inl e
              | Inr self_embedded_in_R3 \<Rightarrow>
                 (case Vector_init (OTuple (coordinates v @ [PStr ''0''])) of
                    Inl e \<Rightarrow> Inl e
                  | Inr v_embedded_in_R3 \<Rightarrow> cross i self_embedded_in_R3 v_embedded_in_R3))
           else if msg = ''too many values to unpack'' \<or>
                   msg = ''need more than 1 value to unpack''
           then Inl (Exception ONLY_DEFINED_IN_TWO_THREE_DIMS_MSG)
           else Inl (ValueError msg))
      | r \<Rightarrow> r)"
  by pat_completeness auto

termination
proof -
  have bind_Inl: "\<And>(a :: exn + 'x) (f :: 'x \<Rightarrow> exn + 'y) e.
      exn_bind a f = Inl e \<Longrightarrow> a = Inl e \<or> (\<exists>x. a = Inr x \<and> f x = Inl e)"
  proof -
    fix a :: "exn + 'x" and f :: "'x \<Rightarrow> exn + 'y" and e
    assume "exn_bind a f = Inl e"
    then show "a = Inl e \<or> (\<exists>x. a = Inr x \<and> f x = Inl e)" by (cases a) simp_all
  qed
  have mul_exn: "\<And>x y m. py_mul x y \<noteq> Inl (ValueError m)"
  proof -
    fix x y m show "py_mul x y \<noteq> Inl (ValueError m)"
      by (cases x; cases y) (simp_all add: to_float_def)
  qed
  have sub_exn: "\<And>x y m. py_sub x y \<noteq> Inl (ValueError m)"
  proof -
    fix x y m show "py_sub x y \<noteq> Inl (ValueError m)"
      by (cases x; cases y) (simp_all add: unsupported_def to_float_def)
  qed
  have neg_exn: "\<And>x m. py_neg x \<noteq> Inl (ValueError m)"
  proof -
    fix x m show "py_neg x \<noteq> Inl (ValueError m)" by (cases x) simp_all
  qed
  have binop_exn: "\<And>a b c d m. binop py_sub (py_mul a b) (py_mul c d) \<noteq> Inl (ValueError m)"
  proof
    fix a b c d m
    assume "binop py_sub (py_mul a b) (py_mul c d) = Inl (ValueError m)"
    then show False
      unfolding binop_def by (auto dest!: bind_Inl simp: mul_exn sub_exn)
  qed
  have arith_exn: "\<And>i self v x_1 y_1 z_1 x_2 y_2 z_2 m.
      coordinates self = [x_1, y_1, z_1] \<Longrightarrow> coordinates v = [x_2, y_2, z_2] \<Longrightarrow>
      cross_body i self v \<noteq> Inl (ValueError m)"
  proof
    fix i self v x_1 y_1 z_1 x_2 y_2 z_2 m
    assume "coordinates self = [x_1, y_1, z_1]" "coordinates v = [x_2, y_2, z_2]"
      and "cross_body i self v = Inl (ValueError m)"
    then show False
      unfolding cross_body_def
      by (auto dest!: bind_Inl simp: binop_exn neg_exn Vector_init_def init_body_def)
  qed
  have need2: "\<And>i self v.
      cross_body i self v = Inl (ValueError ''need more than 2 values to unpack'')
      \<Longrightarrow> length (coordinates self) = 2 \<or>
          (length (coordinates self) = 3 \<and> length (coordinates v) = 2)"
  proof -
    fix i self v
    assume raised:
      "cross_body i self v = Inl (ValueError ''need more than 2 values to unpack'')"
    show "length (coordinates self) = 2 \<or>
          (length (coordinates self) = 3 \<and> length (coordinates v) = 2)"
    proof (cases "(i, coordinates self)" rule: unpack3.cases)
      case (1 i' x y z)
      then have self3: "coordinates self = [x, y, z]" by simp
      show ?thesis
      proof (cases "(i, coordinates v)" rule: unpack3.cases)
        case (1 i'' x' y' z')
        then have "coordinates v = [x', y', z']" by simp
        with self3 raised arith_exn show ?thesis by blast
      qed (use self3 raised in \<open>simp_all add: cross_body_def\<close>)
    qed (use raised in \<open>simp_all add: cross_body_def\<close>)
  qed
  have init: "\<And>xs w. Vector_init (OTuple (xs @ [PStr ''0''])) = Inr w
      \<Longrightarrow> coordinates w = xs @ [PStr ''0'']"
    by (auto simp: Vector_init_def init_body_def)
  show ?thesis
    by (relation "measure (\<lambda>(i, self, v).
           if length (coordinates self) = 2 then 2
           else if length (coordinates self) = 3 \<and> length (coordinates v) = 2 then 1
           else (0::nat))")
       (auto dest!: need2 init)
qed

declare cross.simps [simp del]

section \<open>Vocabulary of the properties\<close>

text \<open>A sequence: a tuple or a list.\<close>

fun is_sequence :: "pyobj \<Rightarrow> bool" where
  "is_sequence (OTuple _) = True"
| "is_sequence (OList _) = True"
| "is_sequence _ = False"

fun elements :: "pyobj \<Rightarrow> pyval list" where
  "elements (OTuple xs) = xs"
| "elements (OList xs) = xs"
| "elements (OIter xs) = xs"
| "elements _ = []"

fun is_iterable :: "pyobj \<Rightarrow> bool" where
  "is_iterable (OTuple _) = True"
| "is_iterable (OList _) = True"
| "is_iterable (OIter _) = True"
| "is_iterable _ = False"

text \<open>Numbers among the coordinates, and the real number that a number stands for.\<close>

fun is_number :: "pyval \<Rightarrow> bool" where
  "is_number (PInt _) = True"
| "is_number (PFloat _) = True"
| "is_number (PStr _) = False"

fun num_value :: "pyval \<Rightarrow> real" where
  "num_value (PInt a) = of_int a"
| "num_value (PFloat a) = a"
| "num_value (PStr _) = 0"

definition numeric :: "Vector \<Rightarrow> bool" where
  "numeric v = list_all is_number (coordinates v)"

fun is_int :: "pyval \<Rightarrow> bool" where
  "is_int (PInt _) = True"
| "is_int _ = False"

fun is_float :: "pyval \<Rightarrow> bool" where
  "is_float (PFloat _) = True"
| "is_float _ = False"

fun int_value :: "pyval \<Rightarrow> int" where
  "int_value (PInt a) = a"
| "int_value _ = 0"

definition ints :: "Vector \<Rightarrow> bool" where
  "ints v = list_all is_int (coordinates v)"

definition floats :: "Vector \<Rightarrow> bool" where
  "floats v = list_all is_float (coordinates v)"

text \<open>A coordinate that converts to a \<^verbatim>\<open>float\<close>: any but an \<^verbatim>\<open>int\<close> beyond the doubles.\<close>

fun convertible :: "pyval \<Rightarrow> bool" where
  "convertible (PInt a) = (\<bar>a\<bar> < DBL_OVERFLOW)"
| "convertible _ = True"

definition in_float_range :: "Vector \<Rightarrow> bool" where
  "in_float_range v = list_all convertible (coordinates v)"

text \<open>
  Two operands whose arithmetic involves no conversion that overflows: both hold
  \<^verbatim>\<open>int\<close>s only, or one of them holds \<^verbatim>\<open>float\<close>s only and every \<^verbatim>\<open>int\<close> of the other converts.
\<close>

definition compatible :: "Vector \<Rightarrow> Vector \<Rightarrow> bool" where
  "compatible a b =
     (ints a \<and> ints b \<or> (floats a \<or> floats b) \<and> in_float_range a \<and> in_float_range b)"

text \<open>
  The invariant of a Vector built from a non-empty sequence: it has at least one
  coordinate, and \<open>dimension\<close> is their number. (The constructor itself also accepts an
  iterator that yields nothing, and then stores no coordinate.)
\<close>

definition nonempty :: "Vector \<Rightarrow> bool" where
  "nonempty v = (coordinates v \<noteq> [] \<and> dimension v = length (coordinates v))"

text \<open>The zero vector: every coordinate is the number zero.\<close>

fun is_zero_number :: "pyval \<Rightarrow> bool" where
  "is_zero_number (PInt a) = (a = 0)"
| "is_zero_number (PFloat a) = (a = 0)"
| "is_zero_number (PStr _) = False"

definition zero_vector :: "Vector \<Rightarrow> bool" where
  "zero_vector v = list_all is_zero_number (coordinates v)"

text \<open>The exceptions of an operator: a wrong operand type, or a conversion that overflows.\<close>

fun operand_error :: "exn \<Rightarrow> bool" where
  "operand_error (TypeError _) = True"
| "operand_error (OverflowError _) = True"
| "operand_error _ = False"

fun raised_OverflowError :: "exn + 'a \<Rightarrow> bool" where
  "raised_OverflowError (Inl (OverflowError _)) = True"
| "raised_OverflowError _ = False"

text \<open>The messages that the handler of \<^verbatim>\<open>cross\<close> compares with.\<close>

definition expected_message :: "string \<Rightarrow> bool" where
  "expected_message msg =
     (msg = ''need more than 2 values to unpack'' \<or> msg = ''too many values to unpack'' \<or>
      msg = ''need more than 1 value to unpack'')"

section \<open>Sequencing and loops\<close>

lemma exn_bind_eq_Inl:
  "exn_bind a f = Inl e \<longleftrightarrow> a = Inl e \<or> (\<exists>x. a = Inr x \<and> f x = Inl e)"
  by (cases a) simp_all

lemma exn_bind_eq_Inr:
  "exn_bind a f = Inr y \<longleftrightarrow> (\<exists>x. a = Inr x \<and> f x = Inr y)"
  by (cases a) simp_all

text \<open>An exception of a loop is an exception of its step.\<close>

lemma map_exn_raises:
  "(\<And>x e. f x = Inl e \<Longrightarrow> P e) \<Longrightarrow> map_exn f xs = Inl e \<Longrightarrow> P e"
  by (induction xs) (auto simp: exn_bind_eq_Inl)

text \<open>A loop whose step succeeds on every element succeeds, with one result per element.\<close>

lemma map_exn_total:
  "(\<And>x. x \<in> set xs \<Longrightarrow> \<exists>y. f x = Inr y \<and> Q x y) \<Longrightarrow>
     \<exists>ys. map_exn f xs = Inr ys \<and> list_all2 Q xs ys"
proof (induction xs)
  case Nil
  then show ?case by simp
next
  case (Cons x xs)
  then obtain y where y: "f x = Inr y" "Q x y" by auto
  from Cons obtain ys where "map_exn f xs = Inr ys" "list_all2 Q xs ys" by auto
  with y show ?case by auto
qed

section \<open>Which exceptions the operations raise\<close>

lemma to_float_small: "\<bar>a\<bar> < DBL_OVERFLOW \<Longrightarrow> to_float a = Inr (of_int a)"
  by (simp add: to_float_def)

lemma to_float_zero: "to_float 0 = Inr 0"
  by (simp add: to_float_def DBL_OVERFLOW_def)

lemma to_float_raises: "to_float a = Inl e \<Longrightarrow> operand_error e"
  by (auto simp: to_float_def split: if_splits)

lemma py_mul_raises: "py_mul x y = Inl e \<Longrightarrow> operand_error e"
  by (cases x; cases y) (auto simp: exn_bind_eq_Inl dest: to_float_raises)

lemma py_add_raises: "py_add x y = Inl e \<Longrightarrow> operand_error e"
  by (cases x; cases y) (auto simp: unsupported_def exn_bind_eq_Inl dest: to_float_raises)

lemma py_square_raises: "py_square x = Inl e \<Longrightarrow> operand_error e"
  by (cases x) (auto simp: unsupported_def)

lemma map_mul_raises: "map_exn (\<lambda>c. py_mul c t) xs = Inl e \<Longrightarrow> operand_error e"
  using map_exn_raises [of "\<lambda>c. py_mul c t" operand_error xs e] py_mul_raises by blast

lemma map_square_raises: "map_exn py_square xs = Inl e \<Longrightarrow> operand_error e"
  using map_exn_raises [of py_square operand_error xs e] py_square_raises by blast

lemma sum_from_raises: "sum_from acc xs = Inl e \<Longrightarrow> operand_error e"
  by (induction xs arbitrary: acc) (auto simp: exn_bind_eq_Inl dest: py_add_raises)

lemma math_sqrt_raises:
  "math_sqrt x = Inl e \<Longrightarrow> operand_error e \<or> e = ValueError ''math domain error''"
  by (cases x) (auto simp: exn_bind_eq_Inl dest: to_float_raises split: if_splits)

lemma math_sqrt_float: "math_sqrt x = Inr m \<Longrightarrow> \<exists>r. m = PFloat r \<and> 0 \<le> r"
  by (cases x) (auto simp: exn_bind_eq_Inr split: if_splits)

section \<open>Construction: results\<close>

lemma Vector_init_nonempty_seq:
  "xs \<noteq> [] \<Longrightarrow> Vector_init (OTuple xs) = Inr \<lparr>coordinates = xs, dimension = length xs\<rparr>"
  "xs \<noteq> [] \<Longrightarrow> Vector_init (OList xs) = Inr \<lparr>coordinates = xs, dimension = length xs\<rparr>"
  by (simp_all add: Vector_init_def init_body_def)

lemma Vector_init_iterator:
  "Vector_init (OIter xs) = Inr \<lparr>coordinates = xs, dimension = length xs\<rparr>"
  by (simp add: Vector_init_def init_body_def)

text \<open>
  C9. Constructing a Vector from a non-empty sequence \<open>c\<close> succeeds, with the elements of
  \<open>c\<close> in order as coordinates and their number as dimension; constructing from an empty
  sequence raises the \<^verbatim>\<open>ValueError\<close> whose message says that the coordinates must be
  nonempty.
\<close>

theorem Vector_init_sequence:
  "is_sequence c \<Longrightarrow>
     Vector_init c =
       (if elements c = [] then Inl (ValueError ''The coordinates must be nonempty'')
        else Inr \<lparr>coordinates = elements c, dimension = length (elements c)\<rparr>)"
  by (cases c) (simp_all add: Vector_init_def init_body_def)

theorem Vector_init_sequence_witness:
  "is_sequence (OList [PInt 1, PFloat 2, PInt 3]) \<and>
   Vector_init (OList [PInt 1, PFloat 2, PInt 3]) =
     Inr \<lparr>coordinates = [PInt 1, PFloat 2, PInt 3], dimension = 3\<rparr> \<and>
   is_sequence (OTuple []) \<and>
   Vector_init (OTuple []) = Inl (ValueError ''The coordinates must be nonempty'')"
  using Vector_init_sequence [of "OList [PInt 1, PFloat 2, PInt 3]"]
        Vector_init_sequence [of "OTuple []"]
  by simp

text \<open>
  C10. The constructor tests the truth value of its argument before it iterates over it:
  an argument that is not iterable raises the "nonempty" \<^verbatim>\<open>ValueError\<close> when it is false
  (such as \<^verbatim>\<open>0\<close>, \<^verbatim>\<open>False\<close>) and the "iterable" \<^verbatim>\<open>TypeError\<close> only when it is true.
\<close>

theorem Vector_init_not_iterable:
  "\<not> is_iterable c \<Longrightarrow>
     Vector_init c =
       (if truthy c then Inl (TypeError ''The coordinates must be iterable'')
        else Inl (ValueError ''The coordinates must be nonempty''))"
  by (cases c) (simp_all add: Vector_init_def init_body_def)

theorem Vector_init_not_iterable_witness:
  "\<not> is_iterable (OInt 0) \<and>
   Vector_init (OInt 0) = Inl (ValueError ''The coordinates must be nonempty'') \<and>
   \<not> is_iterable (OBool False) \<and>
   Vector_init (OBool False) = Inl (ValueError ''The coordinates must be nonempty'') \<and>
   \<not> is_iterable (OInt 5) \<and>
   Vector_init (OInt 5) = Inl (TypeError ''The coordinates must be iterable'')"
  using Vector_init_not_iterable [of "OInt 0"] Vector_init_not_iterable [of "OBool False"]
        Vector_init_not_iterable [of "OInt 5"]
  by simp

lemma Vector_init_dimension:
  "Vector_init c = Inr v \<Longrightarrow> dimension v = length (coordinates v)"
  by (cases c) (auto simp: Vector_init_def init_body_def split: if_splits)

lemma Vector_init_tuple_raises:
  "Vector_init (OTuple t) = Inl e \<Longrightarrow> e = ValueError ''The coordinates must be nonempty''"
  by (auto simp: Vector_init_def init_body_def split: if_splits)

section \<open>Normalization\<close>

lemma Vector_mul_raises:
  "Vector_mul v t = Inl e \<Longrightarrow>
     operand_error e \<or> e = ValueError ''The coordinates must be nonempty''"
  unfolding Vector_mul_def
  by (auto simp: exn_bind_eq_Inl dest: Vector_init_tuple_raises map_mul_raises)

lemma magnitude_raises:
  "magnitude v = Inl e \<Longrightarrow> operand_error e \<or> e = ValueError ''math domain error''"
  unfolding magnitude_def py_sum_def
  by (auto simp: exn_bind_eq_Inl
           dest: math_sqrt_raises sum_from_raises map_square_raises)

lemma magnitude_float: "magnitude v = Inr m \<Longrightarrow> \<exists>r. m = PFloat r \<and> 0 \<le> r"
  unfolding magnitude_def by (auto simp: exn_bind_eq_Inr dest: math_sqrt_float)

text \<open>The body of \<^verbatim>\<open>normalized\<close> raises \<^verbatim>\<open>ZeroDivisionError\<close> in the division only.\<close>

lemma normalized_body_cases:
  "normalized_body v =
     (case magnitude v of
        Inl e \<Rightarrow> Inl e
      | Inr m \<Rightarrow> (if m = PFloat 0 then Inl (ZeroDivisionError ''float division by zero'')
                 else Vector_mul v (PFloat (1 / num_value m))))"
proof (cases "magnitude v")
  case (Inl e)
  then show ?thesis by (simp add: normalized_body_def)
next
  case (Inr m)
  then obtain r where "m = PFloat r" using magnitude_float by blast
  with Inr show ?thesis by (simp add: normalized_body_def)
qed

lemma normalized_cases:
  "normalized v =
     (case magnitude v of
        Inl e \<Rightarrow> Inl e
      | Inr m \<Rightarrow> (if m = PFloat 0 then Inl (Exception ''Cannot normalize the zero vector'')
                 else Vector_mul v (PFloat (1 / num_value m))))"
proof (cases "magnitude v")
  case (Inl e)
  with magnitude_raises [OF Inl] show ?thesis
    by (cases e) (auto simp: normalized_def normalized_body_cases)
next
  case (Inr m)
  show ?thesis
  proof (cases "m = PFloat 0")
    case True
    with Inr show ?thesis by (simp add: normalized_def normalized_body_cases)
  next
    case False
    show ?thesis
    proof (cases "Vector_mul v (PFloat (1 / num_value m))")
      case (Inl e)
      with Vector_mul_raises [OF Inl] Inr False show ?thesis
        by (cases e) (auto simp: normalized_def normalized_body_cases)
    next
      case (Inr w)
      with \<open>magnitude v = Inr m\<close> False show ?thesis
        by (simp add: normalized_def normalized_body_cases)
    qed
  qed
qed

text \<open>
  C4. \<^verbatim>\<open>v.normalized()\<close> raises the exception with the message
  \<^verbatim>\<open>'Cannot normalize the zero vector'\<close> if and only if \<^verbatim>\<open>v.magnitude()\<close> returns exactly zero;
  when the magnitude is another number \<open>m\<close>, the result is that of \<^verbatim>\<open>v * (1. / m)\<close>.
\<close>

theorem normalized_zero_iff:
  "(normalized v = Inl (Exception CANNOT_NORMALIZE_ZERO_VECTOR_MSG)) =
     (magnitude v = Inr (PFloat 0)) \<and>
   (\<forall>m. magnitude v = Inr (PFloat m) \<and> m \<noteq> 0 \<longrightarrow>
        normalized v = Vector_mul v (PFloat (1 / m)))"
proof (intro conjI allI impI)
  show "(normalized v = Inl (Exception CANNOT_NORMALIZE_ZERO_VECTOR_MSG)) =
          (magnitude v = Inr (PFloat 0))"
  proof (cases "magnitude v")
    case (Inl e)
    with magnitude_raises [OF Inl] show ?thesis
      by (cases e) (auto simp: normalized_cases)
  next
    case (Inr m)
    show ?thesis
    proof (cases "m = PFloat 0")
      case True
      with Inr show ?thesis
        by (simp add: normalized_cases CANNOT_NORMALIZE_ZERO_VECTOR_MSG_def)
    next
      case False
      have "Vector_mul v (PFloat (1 / num_value m)) \<noteq>
              Inl (Exception CANNOT_NORMALIZE_ZERO_VECTOR_MSG)"
        using Vector_mul_raises by fastforce
      with Inr False show ?thesis by (simp add: normalized_cases)
    qed
  qed
next
  fix m assume "magnitude v = Inr (PFloat m) \<and> m \<noteq> 0"
  then show "normalized v = Vector_mul v (PFloat (1 / m))" by (simp add: normalized_cases)
qed

theorem normalized_zero_iff_witness:
  "magnitude \<lparr>coordinates = [PInt 3, PInt 4], dimension = 2\<rparr> = Inr (PFloat 5) \<and>
   normalized \<lparr>coordinates = [PInt 3, PInt 4], dimension = 2\<rparr>
     = Inr \<lparr>coordinates = [PFloat (3 / 5), PFloat (4 / 5)], dimension = 2\<rparr> \<and>
   magnitude \<lparr>coordinates = [PInt 0, PInt 0], dimension = 2\<rparr> = Inr (PFloat 0) \<and>
   normalized \<lparr>coordinates = [PInt 0, PInt 0], dimension = 2\<rparr>
     = Inl (Exception ''Cannot normalize the zero vector'')"
proof -
  have m: "magnitude \<lparr>coordinates = [PInt 3, PInt 4], dimension = 2\<rparr> = Inr (PFloat 5)"
    by (simp add: magnitude_def py_sum_def to_float_def DBL_OVERFLOW_def)
  have z: "magnitude \<lparr>coordinates = [PInt 0, PInt 0], dimension = 2\<rparr> = Inr (PFloat 0)"
    by (simp add: magnitude_def py_sum_def to_float_def DBL_OVERFLOW_def)
  show ?thesis
    using normalized_zero_iff [of "\<lparr>coordinates = [PInt 3, PInt 4], dimension = 2\<rparr>"]
          normalized_zero_iff [of "\<lparr>coordinates = [PInt 0, PInt 0], dimension = 2\<rparr>"] m z
    by (simp add: Vector_mul_def Vector_init_def init_body_def to_float_def DBL_OVERFLOW_def
                  CANNOT_NORMALIZE_ZERO_VECTOR_MSG_def)
qed

section \<open>Addition, subtraction and dot product on operands of different dimension\<close>

text \<open>On a pair of compatible numbers the three operators return.\<close>

lemma py_add_compatible:
  "is_int x \<and> is_int y \<or> (is_float x \<or> is_float y) \<and> convertible x \<and> convertible y \<Longrightarrow>
     is_number x \<Longrightarrow> is_number y \<Longrightarrow> \<exists>c. py_add x y = Inr c"
  by (cases x; cases y) (auto simp: to_float_small)

lemma py_sub_compatible:
  "is_int x \<and> is_int y \<or> (is_float x \<or> is_float y) \<and> convertible x \<and> convertible y \<Longrightarrow>
     is_number x \<Longrightarrow> is_number y \<Longrightarrow> \<exists>c. py_sub x y = Inr c"
  by (cases x; cases y) (auto simp: to_float_small)

lemma py_mul_ints:
  "is_int x \<Longrightarrow> is_int y \<Longrightarrow> py_mul x y = Inr (PInt (int_value x * int_value y))"
  by (cases x; cases y) auto

lemma py_mul_float:
  "is_float x \<or> is_float y \<Longrightarrow> convertible x \<Longrightarrow> convertible y \<Longrightarrow>
     is_number x \<Longrightarrow> is_number y \<Longrightarrow> \<exists>r. py_mul x y = Inr (PFloat r)"
  by (cases x; cases y) (auto simp: to_float_small)

lemma sum_from_ints:
  "list_all is_int ps \<Longrightarrow>
     sum_from (PInt k) ps = Inr (PInt (k + sum_list (map int_value ps)))"
proof (induction ps arbitrary: k)
  case Nil
  then show ?case by simp
next
  case (Cons p ps)
  then obtain n where "p = PInt n" by (cases p) auto
  with Cons show ?case by (simp add: add.assoc)
qed

lemma sum_from_floats:
  "list_all is_float ps \<Longrightarrow> is_number acc \<Longrightarrow> convertible acc \<Longrightarrow>
     \<exists>d. sum_from acc ps = Inr d"
proof (induction ps arbitrary: acc)
  case Nil
  then show ?case by simp
next
  case (Cons p ps)
  then obtain r where p: "p = PFloat r" by (cases p) auto
  with Cons.prems obtain s where s: "py_add acc p = Inr (PFloat s)"
    by (cases acc) (auto simp: to_float_small)
  from Cons.IH [of "PFloat s"] Cons.prems obtain d where "sum_from (PFloat s) ps = Inr d"
    by auto
  with s show ?case by auto
qed

lemma zip_members:
  "list_all P xs \<Longrightarrow> list_all P ys \<Longrightarrow> (x, y) \<in> set (zip xs ys) \<Longrightarrow> P x \<and> P y"
  by (auto simp: list_all_iff dest: set_zip_leftD set_zip_rightD)

lemma zip_left: "list_all P xs \<Longrightarrow> (x, y) \<in> set (zip xs ys) \<Longrightarrow> P x"
  by (auto simp: list_all_iff dest: set_zip_leftD)

lemma zip_right: "list_all P ys \<Longrightarrow> (x, y) \<in> set (zip xs ys) \<Longrightarrow> P y"
  by (auto simp: list_all_iff dest: set_zip_rightD)

text \<open>Paired coordinates of compatible operands are compatible numbers.\<close>

lemma compatible_pair:
  assumes "numeric a" "numeric b" "compatible a b"
    and "(x, y) \<in> set (zip (coordinates a) (coordinates b))"
  shows "is_number x \<and> is_number y \<and>
         (is_int x \<and> is_int y \<or> (is_float x \<or> is_float y) \<and> convertible x \<and> convertible y)"
proof -
  from assms(1,2,4) have num: "is_number x \<and> is_number y"
    unfolding numeric_def by (rule zip_members)
  show ?thesis
  proof (cases "ints a \<and> ints b")
    case True
    then have "ints a" "ints b" by simp_all
    from this assms(4) have "is_int x \<and> is_int y"
      unfolding ints_def by (rule zip_members)
    with num show ?thesis by simp
  next
    case False
    with assms(3) have fl: "floats a \<or> floats b"
      and rg: "in_float_range a" "in_float_range b"
      by (auto simp: compatible_def)
    from rg assms(4) have conv: "convertible x \<and> convertible y"
      unfolding in_float_range_def by (rule zip_members)
    from fl have "is_float x \<or> is_float y"
    proof
      assume "floats a"
      from this assms(4) have "is_float x" unfolding floats_def by (rule zip_left)
      then show ?thesis by simp
    next
      assume "floats b"
      from this assms(4) have "is_float y" unfolding floats_def by (rule zip_right)
      then show ?thesis by simp
    qed
    with num conv show ?thesis by simp
  qed
qed

text \<open>
  The common shape of \<^verbatim>\<open>__add__\<close> and \<^verbatim>\<open>__sub__\<close>: an operator that returns on every pair of
  \<^verbatim>\<open>zip\<close> gives a Vector as long as the shorter operand.
\<close>

lemma elementwise:
  assumes step: "\<And>x y. (x, y) \<in> set (zip (coordinates a) (coordinates b)) \<Longrightarrow>
      \<exists>c. f x y = Inr c"
    and "nonempty a" "nonempty b"
  shows "\<exists>w. exn_bind (map_exn (\<lambda>(x, y). f x y) (zip (coordinates a) (coordinates b)))
                (\<lambda>t. Vector_init (OTuple t)) = Inr w \<and>
             dimension w = min (dimension a) (dimension b) \<and>
             list_all2 (\<lambda>(x, y) c. f x y = Inr c)
               (zip (coordinates a) (coordinates b)) (coordinates w)"
proof -
  let ?ps = "zip (coordinates a) (coordinates b)"
  let ?Q = "\<lambda>(x, y) c. f x y = Inr c"
  have "\<And>p. p \<in> set ?ps \<Longrightarrow> \<exists>c. (\<lambda>(x, y). f x y) p = Inr c \<and> ?Q p c"
  proof -
    fix p assume p: "p \<in> set ?ps"
    obtain x y where xy: "p = (x, y)" by (cases p)
    with p step [of x y] show "\<exists>c. (\<lambda>(x, y). f x y) p = Inr c \<and> ?Q p c" by auto
  qed
  then obtain t where t: "map_exn (\<lambda>(x, y). f x y) ?ps = Inr t" "list_all2 ?Q ?ps t"
    using map_exn_total [of ?ps "\<lambda>(x, y). f x y" ?Q] by blast
  then have len: "length t = min (length (coordinates a)) (length (coordinates b))"
    by (auto dest: list_all2_lengthD)
  with assms(2,3) have "0 < length t" by (simp add: nonempty_def min_def)
  then have "t \<noteq> []" by simp
  then have "Vector_init (OTuple t) = Inr \<lparr>coordinates = t, dimension = length t\<rparr>"
    by (simp add: Vector_init_nonempty_seq)
  with t len assms(2,3) show ?thesis by (simp add: nonempty_def)
qed

lemma products_kind:
  "list_all2 (\<lambda>(x, y) p. py_mul x y = Inr p \<and> R p) ps t \<Longrightarrow>
     list_all R t \<and> list_all2 (\<lambda>(x, y) p. py_mul x y = Inr p) ps t"
  by (induction ps t rule: list_all2_induct) auto

lemma products_ints:
  "list_all2 (\<lambda>(x, y) p. py_mul x y = Inr p \<and> p = PInt (int_value x * int_value y)) ps t \<Longrightarrow>
     list_all is_int t \<and> map int_value t = map (\<lambda>(x, y). int_value x * int_value y) ps \<and>
     list_all2 (\<lambda>(x, y) p. py_mul x y = Inr p) ps t"
  by (induction ps t rule: list_all2_induct) auto

text \<open>The dot product of two Vectors of \<^verbatim>\<open>int\<close>s is the exact sum over the common prefix.\<close>

lemma dot_ints:
  assumes "ints a" "ints b"
  shows "\<exists>ps. list_all2 (\<lambda>(x, y) p. py_mul x y = Inr p)
                (zip (coordinates a) (coordinates b)) ps \<and>
              py_sum ps = Inr (PInt (\<Sum>(x, y)\<leftarrow>zip (coordinates a) (coordinates b).
                                       int_value x * int_value y)) \<and>
              dot a b = py_sum ps"
proof -
  let ?ps = "zip (coordinates a) (coordinates b)"
  let ?Q = "\<lambda>(x, y) p. py_mul x y = Inr p \<and> p = PInt (int_value x * int_value y)"
  have "\<And>p. p \<in> set ?ps \<Longrightarrow> \<exists>c. (\<lambda>(x, y). py_mul x y) p = Inr c \<and> ?Q p c"
  proof -
    fix p assume p: "p \<in> set ?ps"
    obtain x y where xy: "p = (x, y)" by (cases p)
    from assms p have "is_int x \<and> is_int y"
      unfolding ints_def xy by (rule zip_members)
    then have "py_mul x y = Inr (PInt (int_value x * int_value y))"
      by (simp add: py_mul_ints)
    then show "\<exists>c. (\<lambda>(x, y). py_mul x y) p = Inr c \<and> ?Q p c"
      unfolding xy by simp
  qed
  then obtain t where t: "map_exn (\<lambda>(x, y). py_mul x y) ?ps = Inr t" "list_all2 ?Q ?ps t"
    using map_exn_total [of ?ps "\<lambda>(x, y). py_mul x y" ?Q] by blast
  note facts = products_ints [OF t(2)]
  from facts have kind: "list_all is_int t" by (rule conjunct1)
  from facts have vals: "map int_value t = map (\<lambda>(x, y). int_value x * int_value y) ?ps"
    by (rule conjunct2 [THEN conjunct1])
  from facts have rel: "list_all2 (\<lambda>(x, y) p. py_mul x y = Inr p) ?ps t"
    by (rule conjunct2 [THEN conjunct2])
  have "py_sum t = Inr (PInt (0 + sum_list (map int_value t)))"
    unfolding py_sum_def using kind by (rule sum_from_ints)
  then have total: "py_sum t =
      Inr (PInt (\<Sum>(x, y)\<leftarrow>?ps. int_value x * int_value y))"
    unfolding vals by simp
  have "dot a b = py_sum t"
    unfolding dot_def t(1) by simp
  with rel total show ?thesis by blast
qed

lemma dot_floats:
  assumes "numeric a" "numeric b" "floats a \<or> floats b" "in_float_range a" "in_float_range b"
  shows "\<exists>ps d. list_all2 (\<lambda>(x, y) p. py_mul x y = Inr p)
                  (zip (coordinates a) (coordinates b)) ps \<and>
                py_sum ps = Inr d \<and> dot a b = Inr d"
proof -
  let ?ps = "zip (coordinates a) (coordinates b)"
  let ?Q = "\<lambda>(x, y) p. py_mul x y = Inr p \<and> is_float p"
  have "\<And>p. p \<in> set ?ps \<Longrightarrow> \<exists>c. (\<lambda>(x, y). py_mul x y) p = Inr c \<and> ?Q p c"
  proof -
    fix p assume p: "p \<in> set ?ps"
    obtain x y where xy: "p = (x, y)" by (cases p)
    from assms(1,2) p have num: "is_number x \<and> is_number y"
      unfolding numeric_def xy by (rule zip_members)
    from assms(4,5) p have conv: "convertible x \<and> convertible y"
      unfolding in_float_range_def xy by (rule zip_members)
    from assms(3) have "is_float x \<or> is_float y"
    proof
      assume "floats a"
      from this p have "is_float x" unfolding floats_def xy by (rule zip_left)
      then show ?thesis by simp
    next
      assume "floats b"
      from this p have "is_float y" unfolding floats_def xy by (rule zip_right)
      then show ?thesis by simp
    qed
    with num conv obtain r where "py_mul x y = Inr (PFloat r)"
      using py_mul_float [of x y] by blast
    then show "\<exists>c. (\<lambda>(x, y). py_mul x y) p = Inr c \<and> ?Q p c"
      unfolding xy by simp
  qed
  then obtain t where t: "map_exn (\<lambda>(x, y). py_mul x y) ?ps = Inr t" "list_all2 ?Q ?ps t"
    using map_exn_total [of ?ps "\<lambda>(x, y). py_mul x y" ?Q] by blast
  note facts = products_kind [OF t(2)]
  from facts have kind: "list_all is_float t" by (rule conjunct1)
  from facts have rel: "list_all2 (\<lambda>(x, y) p. py_mul x y = Inr p) ?ps t"
    by (rule conjunct2)
  have "convertible (PInt 0)" by (simp add: DBL_OVERFLOW_def)
  with kind have "\<exists>d. sum_from (PInt 0) t = Inr d"
    by (intro sum_from_floats) simp_all
  then obtain d where d: "py_sum t = Inr d" unfolding py_sum_def by blast
  have "dot a b = py_sum t"
    unfolding dot_def t(1) by simp
  with rel d show ?thesis by auto
qed

text \<open>
  C2, as the code has it. Let \<open>a\<close> and \<open>b\<close> each have at least one coordinate, all of them
  numbers, with \<^verbatim>\<open>int\<close>s only in both or \<^verbatim>\<open>float\<close>s only in one of them and every \<^verbatim>\<open>int\<close>
  within the range of a double. Then, also when the dimensions differ, \<^verbatim>\<open>a + b\<close> and
  \<^verbatim>\<open>a - b\<close> return a Vector whose dimension is that of the shorter operand and whose
  coordinates are \<^verbatim>\<open>x + y\<close>, respectively \<^verbatim>\<open>x - y\<close>, for the pairs of the common prefix, and
  \<^verbatim>\<open>a.dot(b)\<close> returns \<^verbatim>\<open>sum\<close> of the products \<^verbatim>\<open>x * y\<close> of those pairs, which is the exact
  integer sum when all coordinates are \<^verbatim>\<open>int\<close>s. None of the three raises.
\<close>

theorem truncation_of_compatible_operands:
  assumes "nonempty a" "nonempty b" "numeric a" "numeric b" "compatible a b"
  shows "(\<exists>w. Vector_add a b = Inr w \<and> dimension w = min (dimension a) (dimension b) \<and>
              list_all2 (\<lambda>(x, y) c. py_add x y = Inr c)
                (zip (coordinates a) (coordinates b)) (coordinates w)) \<and>
         (\<exists>w. Vector_sub a b = Inr w \<and> dimension w = min (dimension a) (dimension b) \<and>
              list_all2 (\<lambda>(x, y) c. py_sub x y = Inr c)
                (zip (coordinates a) (coordinates b)) (coordinates w)) \<and>
         (\<exists>ps d. list_all2 (\<lambda>(x, y) p. py_mul x y = Inr p)
                   (zip (coordinates a) (coordinates b)) ps \<and>
                 py_sum ps = Inr d \<and> dot a b = Inr d) \<and>
         (ints a \<and> ints b \<longrightarrow>
            dot a b = Inr (PInt (\<Sum>(x, y)\<leftarrow>zip (coordinates a) (coordinates b).
                                    int_value x * int_value y)))"
proof (intro conjI impI)
  have pair: "\<And>x y. (x, y) \<in> set (zip (coordinates a) (coordinates b)) \<Longrightarrow>
      is_number x \<and> is_number y \<and>
      (is_int x \<and> is_int y \<or> (is_float x \<or> is_float y) \<and> convertible x \<and> convertible y)"
    using compatible_pair [OF assms(3,4,5)] by blast
  show "\<exists>w. Vector_add a b = Inr w \<and> dimension w = min (dimension a) (dimension b) \<and>
            list_all2 (\<lambda>(x, y) c. py_add x y = Inr c)
              (zip (coordinates a) (coordinates b)) (coordinates w)"
    unfolding Vector_add_def
    using assms(1,2) pair py_add_compatible by (intro elementwise) blast+
  show "\<exists>w. Vector_sub a b = Inr w \<and> dimension w = min (dimension a) (dimension b) \<and>
            list_all2 (\<lambda>(x, y) c. py_sub x y = Inr c)
              (zip (coordinates a) (coordinates b)) (coordinates w)"
    unfolding Vector_sub_def
    using assms(1,2) pair py_sub_compatible by (intro elementwise) blast+
  show "\<exists>ps d. list_all2 (\<lambda>(x, y) p. py_mul x y = Inr p)
                 (zip (coordinates a) (coordinates b)) ps \<and>
               py_sum ps = Inr d \<and> dot a b = Inr d"
  proof (cases "ints a \<and> ints b")
    case True
    with dot_ints [of a b] show ?thesis by auto
  next
    case False
    with assms(5) have "(floats a \<or> floats b) \<and> in_float_range a \<and> in_float_range b"
      by (auto simp: compatible_def)
    with dot_floats [OF assms(3,4)] show ?thesis by blast
  qed
next
  assume "ints a \<and> ints b"
  with dot_ints [of a b]
  show "dot a b = Inr (PInt (\<Sum>(x, y)\<leftarrow>zip (coordinates a) (coordinates b).
                               int_value x * int_value y))"
    by auto
qed

theorem truncation_of_compatible_operands_witness:
  "nonempty \<lparr>coordinates = [PInt 1, PInt 2, PInt 3], dimension = 3\<rparr> \<and>
   nonempty \<lparr>coordinates = [PFloat 10, PFloat (1 / 2)], dimension = 2\<rparr> \<and>
   nonempty \<lparr>coordinates = [PInt 4, PInt 5], dimension = 2\<rparr> \<and>
   numeric \<lparr>coordinates = [PInt 1, PInt 2, PInt 3], dimension = 3\<rparr> \<and>
   numeric \<lparr>coordinates = [PFloat 10, PFloat (1 / 2)], dimension = 2\<rparr> \<and>
   numeric \<lparr>coordinates = [PInt 4, PInt 5], dimension = 2\<rparr> \<and>
   compatible \<lparr>coordinates = [PInt 1, PInt 2, PInt 3], dimension = 3\<rparr>
              \<lparr>coordinates = [PFloat 10, PFloat (1 / 2)], dimension = 2\<rparr> \<and>
   compatible \<lparr>coordinates = [PInt 1, PInt 2, PInt 3], dimension = 3\<rparr>
              \<lparr>coordinates = [PInt 4, PInt 5], dimension = 2\<rparr> \<and>
   ints \<lparr>coordinates = [PInt 1, PInt 2, PInt 3], dimension = 3\<rparr> \<and>
   ints \<lparr>coordinates = [PInt 4, PInt 5], dimension = 2\<rparr> \<and>
   Vector_add \<lparr>coordinates = [PInt 1, PInt 2, PInt 3], dimension = 3\<rparr>
              \<lparr>coordinates = [PFloat 10, PFloat (1 / 2)], dimension = 2\<rparr>
     = Inr \<lparr>coordinates = [PFloat 11, PFloat (5 / 2)], dimension = 2\<rparr> \<and>
   Vector_sub \<lparr>coordinates = [PInt 1, PInt 2, PInt 3], dimension = 3\<rparr>
              \<lparr>coordinates = [PFloat 10, PFloat (1 / 2)], dimension = 2\<rparr>
     = Inr \<lparr>coordinates = [PFloat (- 9), PFloat (3 / 2)], dimension = 2\<rparr> \<and>
   dot \<lparr>coordinates = [PInt 1, PInt 2, PInt 3], dimension = 3\<rparr>
       \<lparr>coordinates = [PFloat 10, PFloat (1 / 2)], dimension = 2\<rparr>
     = Inr (PFloat 11) \<and>
   dot \<lparr>coordinates = [PInt 1, PInt 2, PInt 3], dimension = 3\<rparr>
       \<lparr>coordinates = [PInt 4, PInt 5], dimension = 2\<rparr>
     = Inr (PInt 14)"
  using truncation_of_compatible_operands
          [of "\<lparr>coordinates = [PInt 1, PInt 2, PInt 3], dimension = 3\<rparr>"
              "\<lparr>coordinates = [PFloat 10, PFloat (1 / 2)], dimension = 2\<rparr>"]
        truncation_of_compatible_operands
          [of "\<lparr>coordinates = [PInt 1, PInt 2, PInt 3], dimension = 3\<rparr>"
              "\<lparr>coordinates = [PInt 4, PInt 5], dimension = 2\<rparr>"]
  by (simp add: nonempty_def numeric_def compatible_def ints_def floats_def in_float_range_def
                Vector_add_def Vector_sub_def dot_def py_sum_def Vector_init_def init_body_def
                to_float_def DBL_OVERFLOW_def)

text \<open>
  C2 as it is stated fails on an operand without coordinates, which the constructor
  returns for an iterator that yields nothing: the truncated tuple is empty and the
  constructor refuses it. It also fails where an \<^verbatim>\<open>int\<close> beyond the doubles meets a
  \<^verbatim>\<open>float\<close>.
\<close>

theorem truncation_raises_counterexample:
  "Vector_init (OIter []) = Inr \<lparr>coordinates = [], dimension = 0\<rparr> \<and>
   dimension \<lparr>coordinates = [PInt 1], dimension = 1\<rparr>
     \<noteq> dimension \<lparr>coordinates = [], dimension = 0\<rparr> \<and>
   Vector_add \<lparr>coordinates = [PInt 1], dimension = 1\<rparr> \<lparr>coordinates = [], dimension = 0\<rparr>
     = Inl (ValueError ''The coordinates must be nonempty'') \<and>
   Vector_sub \<lparr>coordinates = [PInt 1], dimension = 1\<rparr> \<lparr>coordinates = [], dimension = 0\<rparr>
     = Inl (ValueError ''The coordinates must be nonempty'') \<and>
   raised_OverflowError
     (Vector_add \<lparr>coordinates = [PInt (10 ^ 400)], dimension = 1\<rparr>
                 \<lparr>coordinates = [PFloat (1 / 2), PFloat 2], dimension = 2\<rparr>) \<and>
   raised_OverflowError
     (Vector_sub \<lparr>coordinates = [PInt (10 ^ 400)], dimension = 1\<rparr>
                 \<lparr>coordinates = [PFloat (1 / 2), PFloat 2], dimension = 2\<rparr>) \<and>
   raised_OverflowError
     (dot \<lparr>coordinates = [PInt (10 ^ 400)], dimension = 1\<rparr>
          \<lparr>coordinates = [PFloat (1 / 2), PFloat 2], dimension = 2\<rparr>)"
  by (simp add: Vector_init_def init_body_def Vector_add_def Vector_sub_def dot_def
                to_float_def DBL_OVERFLOW_def)

section \<open>Projection on the zero vector\<close>

lemma zero_squares:
  "list_all is_zero_number xs \<Longrightarrow>
     \<exists>ys. map_exn py_square xs = Inr ys \<and> list_all is_zero_number ys"
proof (induction xs)
  case Nil
  then show ?case by simp
next
  case (Cons x xs)
  then show ?case by (cases x) auto
qed

lemma zero_sum:
  "is_zero_number acc \<Longrightarrow> list_all is_zero_number xs \<Longrightarrow>
     \<exists>r. sum_from acc xs = Inr r \<and> is_zero_number r"
proof (induction xs arbitrary: acc)
  case Nil
  then show ?case by simp
next
  case (Cons x xs)
  from Cons.prems obtain s where "py_add acc x = Inr s" "is_zero_number s"
    by (cases acc; cases x) (auto simp: to_float_zero)
  with Cons show ?case by auto
qed

lemma zero_sqrt: "is_zero_number r \<Longrightarrow> math_sqrt r = Inr (PFloat 0)"
  by (cases r) (auto simp: to_float_zero)

lemma zero_vector_magnitude: "zero_vector v \<Longrightarrow> magnitude v = Inr (PFloat 0)"
proof -
  assume "zero_vector v"
  then obtain ys where ys: "map_exn py_square (coordinates v) = Inr ys"
      "list_all is_zero_number ys"
    using zero_squares unfolding zero_vector_def by blast
  then obtain r where "sum_from (PInt 0) ys = Inr r" "is_zero_number r"
    using zero_sum [of "PInt 0" ys] by auto
  with ys show ?thesis by (simp add: magnitude_def py_sum_def zero_sqrt)
qed

lemma zero_vector_normalized:
  "zero_vector v \<Longrightarrow> normalized v = Inl (Exception ''Cannot normalize the zero vector'')"
  by (simp add: normalized_cases zero_vector_magnitude)

text \<open>
  C5. When \<open>basis\<close> is the zero vector, \<^verbatim>\<open>v.component_parallel_to(basis)\<close> raises the exception
  with the message \<^verbatim>\<open>'No unique parallel component'\<close> and \<^verbatim>\<open>v.component_orthogonal_to(basis)\<close>
  the one with the message \<^verbatim>\<open>'No unique orthogonal component'\<close>, for every \<open>v\<close>; neither lets
  the exception of \<^verbatim>\<open>normalized\<close> through.
\<close>

theorem zero_basis_relabelled:
  assumes "zero_vector basis"
  shows "component_parallel_to v basis = Inl (Exception NO_UNIQUE_PARALLEL_COMPONENT_MSG) \<and>
         component_orthogonal_to v basis = Inl (Exception NO_UNIQUE_ORTHOGONAL_COMPONENT_MSG) \<and>
         component_parallel_to v basis \<noteq> Inl (Exception CANNOT_NORMALIZE_ZERO_VECTOR_MSG) \<and>
         component_orthogonal_to v basis \<noteq> Inl (Exception CANNOT_NORMALIZE_ZERO_VECTOR_MSG)"
proof -
  have par: "component_parallel_to v basis = Inl (Exception NO_UNIQUE_PARALLEL_COMPONENT_MSG)"
    using assms
    by (simp add: component_parallel_to_def parallel_body_def zero_vector_normalized
                  CANNOT_NORMALIZE_ZERO_VECTOR_MSG_def)
  then have orth:
    "component_orthogonal_to v basis = Inl (Exception NO_UNIQUE_ORTHOGONAL_COMPONENT_MSG)"
    by (simp add: component_orthogonal_to_def orthogonal_body_def)
  have "NO_UNIQUE_PARALLEL_COMPONENT_MSG \<noteq> CANNOT_NORMALIZE_ZERO_VECTOR_MSG"
       "NO_UNIQUE_ORTHOGONAL_COMPONENT_MSG \<noteq> CANNOT_NORMALIZE_ZERO_VECTOR_MSG"
    by (simp_all add: NO_UNIQUE_PARALLEL_COMPONENT_MSG_def
                      NO_UNIQUE_ORTHOGONAL_COMPONENT_MSG_def
                      CANNOT_NORMALIZE_ZERO_VECTOR_MSG_def)
  with par orth show ?thesis by simp
qed

theorem zero_basis_relabelled_witness:
  "zero_vector \<lparr>coordinates = [PInt 0, PFloat 0], dimension = 2\<rparr> \<and>
   component_parallel_to \<lparr>coordinates = [PInt 3, PInt 4], dimension = 2\<rparr>
       \<lparr>coordinates = [PInt 0, PFloat 0], dimension = 2\<rparr>
     = Inl (Exception ''No unique parallel component'') \<and>
   component_orthogonal_to \<lparr>coordinates = [PInt 3, PInt 4], dimension = 2\<rparr>
       \<lparr>coordinates = [PInt 0, PFloat 0], dimension = 2\<rparr>
     = Inl (Exception ''No unique orthogonal component'')"
  using zero_basis_relabelled [of "\<lparr>coordinates = [PInt 0, PFloat 0], dimension = 2\<rparr>"
                                  "\<lparr>coordinates = [PInt 3, PInt 4], dimension = 2\<rparr>"]
  by (simp add: zero_vector_def NO_UNIQUE_PARALLEL_COMPONENT_MSG_def
                NO_UNIQUE_ORTHOGONAL_COMPONENT_MSG_def)

section \<open>Cross product\<close>

lemma shape_cases [case_names empty one two three more]:
  obtains "xs = []" | x where "xs = [x]" | x y where "xs = [x, y]"
    | x y z where "xs = [x, y, z]" | x y z w ws where "xs = x # y # z # w # ws"
  by (metis list.exhaust)

text \<open>
  On two Vectors of three numbers \<^verbatim>\<open>cross\<close> computes the determinant formula, on either
  interpreter.
\<close>

lemma cross_3d_unit_vectors:
  "cross i \<lparr>coordinates = [PInt 1, PInt 0, PInt 0], dimension = 3\<rparr>
           \<lparr>coordinates = [PInt 0, PInt 1, PInt 0], dimension = 3\<rparr>
     = Inr \<lparr>coordinates = [PInt 0, PInt 0, PInt 1], dimension = 3\<rparr>"
  by (simp add: cross.simps cross_body_def Vector_init_def init_body_def binop_def)

text \<open>
  C1. The claim is that \<^verbatim>\<open>cross\<close> on two Vectors of dimension 2 appends a zero to each and
  returns their cross product, so that \<^verbatim>\<open>Vector([1, 0]).cross(Vector([0, 1]))\<close> is the Vector
  \<open>(0, 0, 1)\<close>. The code appends the string \<^verbatim>\<open>'0'\<close>, not the number: on CPython 2.7 the
  products \<^verbatim>\<open>0 * '0'\<close> and \<^verbatim>\<open>1 * '0'\<close> are the strings \<^verbatim>\<open>''\<close> and \<^verbatim>\<open>'0'\<close>, and their difference
  raises \<^verbatim>\<open>TypeError\<close>, which the handler for \<^verbatim>\<open>ValueError\<close> lets through. On CPython 3 the
  message of the failed unpacking is none of those the handler expects, and the
  \<^verbatim>\<open>ValueError\<close> is raised again.
\<close>

theorem cross_2d_unit_vectors_raises:
  "cross CPython2 \<lparr>coordinates = [PInt 1, PInt 0], dimension = 2\<rparr>
                  \<lparr>coordinates = [PInt 0, PInt 1], dimension = 2\<rparr>
     = Inl (TypeError (''unsupported operand type(s) for -: ''
                       @ quoted ''str'' @ '' and '' @ quoted ''str'')) \<and>
   cross CPython3 \<lparr>coordinates = [PInt 1, PInt 0], dimension = 2\<rparr>
                  \<lparr>coordinates = [PInt 0, PInt 1], dimension = 2\<rparr>
     = Inl (ValueError ''not enough values to unpack (expected 3, got 2)'')"
  by (simp add: cross.simps cross_body_def Vector_init_def init_body_def binop_def
                unsupported_def)

text \<open>No pair of Vectors of two numbers has a cross product: every such call raises.\<close>

lemma cross_2d_numeric_raises:
  assumes "length (coordinates a) = 2" "length (coordinates b) = 2" "numeric a" "numeric b"
  shows "\<exists>m. cross CPython2 a b = Inl (TypeError m)"
proof -
  from assms(1) obtain x_1 y_1 where a: "coordinates a = [x_1, y_1]"
    by (cases "coordinates a" rule: shape_cases) simp_all
  from assms(2) obtain x_2 y_2 where b: "coordinates b = [x_2, y_2]"
    by (cases "coordinates b" rule: shape_cases) simp_all
  from a b assms(3,4) have "is_number y_1" "is_number y_2" by (simp_all add: numeric_def)
  then show ?thesis
    using a b
    by (cases y_1; cases y_2)
       (simp_all add: cross.simps cross_body_def Vector_init_def init_body_def binop_def
                      unsupported_def)
qed

text \<open>
  On CPython 2.7 an operand of dimension 1, or 4 and more, makes \<^verbatim>\<open>cross\<close> raise the
  exception with the message \<^verbatim>\<open>ONLY_DEFINED_IN_TWO_THREE_DIMS_MSG\<close>, whatever the
  coordinates are.
\<close>

lemma cross_py2_unsupported_dimension:
  assumes "nonempty a" "nonempty b"
    and "dimension a \<notin> {2, 3} \<or> dimension b \<notin> {2, 3}"
  shows "cross CPython2 a b = Inl (Exception ONLY_DEFINED_IN_TWO_THREE_DIMS_MSG)"
proof (cases "coordinates a" rule: shape_cases)
  case empty
  with assms show ?thesis by (simp add: nonempty_def)
next
  case (one x)
  then show ?thesis by (simp add: cross.simps cross_body_def)
next
  case (two x y)
  show ?thesis
  proof (cases "coordinates b" rule: shape_cases)
    case empty
    with assms show ?thesis by (simp add: nonempty_def)
  next
    case (one p)
    with two show ?thesis
      by (simp add: cross.simps cross_body_def Vector_init_def init_body_def)
  next
    case (two p q)
    with \<open>coordinates a = [x, y]\<close> assms show ?thesis by (simp add: nonempty_def)
  next
    case (three p q r)
    with \<open>coordinates a = [x, y]\<close> assms show ?thesis by (simp add: nonempty_def)
  next
    case (more p q r s ss)
    with two show ?thesis
      by (simp add: cross.simps cross_body_def Vector_init_def init_body_def)
  qed
next
  case (three x y z)
  show ?thesis
  proof (cases "coordinates b" rule: shape_cases)
    case empty
    with assms show ?thesis by (simp add: nonempty_def)
  next
    case (one p)
    with three show ?thesis by (simp add: cross.simps cross_body_def)
  next
    case (two p q)
    with \<open>coordinates a = [x, y, z]\<close> assms show ?thesis by (simp add: nonempty_def)
  next
    case (three p q r)
    with \<open>coordinates a = [x, y, z]\<close> assms show ?thesis by (simp add: nonempty_def)
  next
    case (more p q r s ss)
    with three show ?thesis by (simp add: cross.simps cross_body_def)
  qed
next
  case (more x y z w ws)
  then show ?thesis by (simp add: cross.simps cross_body_def)
qed

text \<open>
  On CPython 3 no unpacking message is one that the handler expects: a Vector whose
  dimension is not 3 makes \<^verbatim>\<open>cross\<close> raise the \<^verbatim>\<open>ValueError\<close> of the unpacking itself.
\<close>

lemma unpack3_py3_message:
  "unpack3 CPython3 xs = Inl e \<Longrightarrow> \<exists>m. e = ValueError m \<and> \<not> expected_message m"
  by (cases xs rule: shape_cases) (auto simp: expected_message_def)

lemma cross_py3_body:
  assumes "length (coordinates a) \<noteq> 3 \<or> length (coordinates b) \<noteq> 3"
  shows "\<exists>e. cross_body CPython3 a b = Inl e \<and>
            (unpack3 CPython3 (coordinates a) = Inl e \<or>
             unpack3 CPython3 (coordinates b) = Inl e)"
proof (cases "coordinates a" rule: shape_cases)
  case (three x y z)
  with assms have "length (coordinates b) \<noteq> 3" by simp
  then show ?thesis
    using three by (cases "coordinates b" rule: shape_cases) (simp_all add: cross_body_def)
qed (simp_all add: cross_body_def)

lemma cross_reraises:
  assumes "cross_body i a b = Inl (ValueError m)" and "\<not> expected_message m"
  shows "cross i a b = Inl (ValueError m)"
  using assms(2) by (subst cross.simps) (simp add: assms(1) expected_message_def)

lemma cross_py3_wrong_dimension:
  assumes "length (coordinates a) \<noteq> 3 \<or> length (coordinates b) \<noteq> 3"
  shows "\<exists>m. cross CPython3 a b = Inl (ValueError m)"
proof -
  from cross_py3_body [OF assms] obtain e where e: "cross_body CPython3 a b = Inl e"
    and alt: "unpack3 CPython3 (coordinates a) = Inl e \<or>
              unpack3 CPython3 (coordinates b) = Inl e"
    by (elim exE conjE)
  from alt have "\<exists>m. e = ValueError m \<and> \<not> expected_message m"
  proof
    assume "unpack3 CPython3 (coordinates a) = Inl e"
    then show ?thesis by (rule unpack3_py3_message)
  next
    assume "unpack3 CPython3 (coordinates b) = Inl e"
    then show ?thesis by (rule unpack3_py3_message)
  qed
  then obtain m where m: "e = ValueError m" and unexpected: "\<not> expected_message m"
    by (elim exE conjE)
  from e have "cross_body CPython3 a b = Inl (ValueError m)" unfolding m .
  from this unexpected have "cross CPython3 a b = Inl (ValueError m)"
    by (rule cross_reraises)
  then show ?thesis by (rule exI)
qed

text \<open>
  C7. The claim is that \<^verbatim>\<open>cross\<close> raises the exception with the message
  \<^verbatim>\<open>ONLY_DEFINED_IN_TWO_THREE_DIMS_MSG\<close> whenever the dimension of an operand is not 2
  or 3. On CPython 3 the handler never recognises the message of the unpacking, and
  \<^verbatim>\<open>Vector([1, 2, 3, 4]).cross(Vector([1, 0, 0]))\<close> and \<^verbatim>\<open>Vector([1, 0, 0]).cross(Vector([7.]))\<close>
  raise \<^verbatim>\<open>ValueError\<close> instead. On both interpreters the handler has no branch for a
  Vector without coordinates, which the constructor returns for an iterator that yields
  nothing.
\<close>

theorem cross_wrong_dimension_reraises:
  "cross CPython3 \<lparr>coordinates = [PInt 1, PInt 2, PInt 3, PInt 4], dimension = 4\<rparr>
                  \<lparr>coordinates = [PInt 1, PInt 0, PInt 0], dimension = 3\<rparr>
     = Inl (ValueError ''too many values to unpack (expected 3)'') \<and>
   cross CPython3 \<lparr>coordinates = [PInt 1, PInt 0, PInt 0], dimension = 3\<rparr>
                  \<lparr>coordinates = [PFloat 7], dimension = 1\<rparr>
     = Inl (ValueError ''not enough values to unpack (expected 3, got 1)'') \<and>
   Vector_init (OIter []) = Inr \<lparr>coordinates = [], dimension = 0\<rparr> \<and>
   cross CPython2 \<lparr>coordinates = [], dimension = 0\<rparr>
                  \<lparr>coordinates = [PInt 1, PInt 0, PInt 0], dimension = 3\<rparr>
     = Inl (ValueError ''need more than 0 values to unpack'') \<and>
   cross CPython3 \<lparr>coordinates = [], dimension = 0\<rparr>
                  \<lparr>coordinates = [PInt 1, PInt 0, PInt 0], dimension = 3\<rparr>
     = Inl (ValueError ''not enough values to unpack (expected 3, got 0)'')"
  by (simp add: cross.simps cross_body_def Vector_init_def init_body_def)

end
